theory Spec2Isabelle
  imports Complex_Main "HOL-Library.Multiset"
begin

section \<open>Exceptions and external calls\<close>

text \<open>
  The notebook \<^verbatim>\<open>midi_classifier.ipynb\<close> is Python. Every exception it can raise
  is a value of \<open>exn\<close>; a computation that may raise has type \<open>exn + 'a\<close>
  (\<open>Inl\<close> the exception). Python floats are modelled as exact real numbers.
  \<open>LibraryError\<close> stands for any exception class of an external library
  (pretty_midi, scikit-learn), \<open>WarningAsError\<close> for a warning raised as an
  exception under \<^verbatim>\<open>warnings.simplefilter("error")\<close>.
\<close>

datatype exn =
    IndexError
  | KeyError
  | ValueError
  | TypeError
  | ZeroDivisionError
  | LibraryError string
  | WarningAsError string

definition bindE :: "exn + 'a \<Rightarrow> ('a \<Rightarrow> exn + 'b) \<Rightarrow> exn + 'b" where
  "bindE m f = (case m of Inl e \<Rightarrow> Inl e | Inr x \<Rightarrow> f x)"

text \<open>
  A call into the MIDI codec: the warnings it issues, in order, and then what it
  returns or raises.
\<close>

type_synonym 'a codec_call = "string list \<times> (exn + 'a)"

text \<open>
  Inside \<^verbatim>\<open>with warnings.catch_warnings(): warnings.simplefilter("error")\<close> the first
  warning of a call is raised as an exception at the place it is issued.
\<close>

definition simplefilter_error :: "'a codec_call \<Rightarrow> exn + 'a" where
  "simplefilter_error c =
     (case fst c of [] \<Rightarrow> snd c | w # _ \<Rightarrow> Inl (WarningAsError w))"

section \<open>Feature extraction (cell 8)\<close>

text \<open>
  What the code reads of a \<^verbatim>\<open>pretty_midi.PrettyMIDI\<close> object: the method
  \<^verbatim>\<open>estimate_tempo()\<close> (a call that may warn or raise), the list
  \<^verbatim>\<open>time_signature_changes\<close> and the attribute \<^verbatim>\<open>resolution\<close>.
\<close>

record time_signature =
  numerator :: int
  denominator :: int

record midi_file =
  estimate_tempo :: "real codec_call"
  time_signature_changes :: "time_signature list"
  resolution :: int

text \<open>
  \<^verbatim>\<open>
  def normalize_features(features):
      tempo = (features[0] - 150) / 300
      num_sig_changes = (features[1] - 2) / 10
      resolution = (features[2] - 260) / 400
      time_sig_1 = (features[3] - 3) / 8
      time_sig_2 = (features[4] - 3) / 8
      return [tempo, resolution, time_sig_1, time_sig_2]
  \<close>
  An index beyond the list raises IndexError.
\<close>

definition py_getitem :: "'a list \<Rightarrow> nat \<Rightarrow> exn + 'a" where
  "py_getitem xs i = (if i < length xs then Inr (xs ! i) else Inl IndexError)"

definition normalize_features :: "real list \<Rightarrow> exn + real list" where
  "normalize_features features =
     bindE (py_getitem features 0) (\<lambda>f0.
     bindE (py_getitem features 1) (\<lambda>f1.
     bindE (py_getitem features 2) (\<lambda>f2.
     bindE (py_getitem features 3) (\<lambda>f3.
     bindE (py_getitem features 4) (\<lambda>f4.
       let tempo = (f0 - 150) / 300;
           num_sig_changes = (f1 - 2) / 10;
           resolution = (f2 - 260) / 400;
           time_sig_1 = (f3 - 3) / 8;
           time_sig_2 = (f4 - 3) / 8
       in Inr [tempo, resolution, time_sig_1, time_sig_2])))))"

text \<open>
  The body of the \<^verbatim>\<open>try\<close> block of \<^verbatim>\<open>get_features\<close>. The codec
  \<^verbatim>\<open>pretty_midi.PrettyMIDI\<close> is a parameter.
\<close>

definition get_features_try ::
  "(string \<Rightarrow> midi_file codec_call) \<Rightarrow> string \<Rightarrow> exn + real list" where
  "get_features_try PrettyMIDI path =
     bindE (simplefilter_error (PrettyMIDI path)) (\<lambda>file.
     bindE (simplefilter_error (estimate_tempo file)) (\<lambda>tempo.
       let num_sig_changes = int (length (time_signature_changes file));
           resolution = resolution file;
           ts_changes = time_signature_changes file;
           ts_1 = (if length ts_changes > 0 then numerator (hd ts_changes) else 4);
           ts_2 = (if length ts_changes > 0 then denominator (hd ts_changes) else 4)
       in normalize_features
            [tempo, of_int num_sig_changes, of_int resolution, of_int ts_1, of_int ts_2]))"

text \<open>
  \<^verbatim>\<open>try: ... except: return None\<close>: the bare \<^verbatim>\<open>except\<close> catches every exception.
\<close>

definition get_features ::
  "(string \<Rightarrow> midi_file codec_call) \<Rightarrow> string \<Rightarrow> real list option" where
  "get_features PrettyMIDI path =
     (case get_features_try PrettyMIDI path of Inl _ \<Rightarrow> None | Inr v \<Rightarrow> Some v)"

section \<open>Building the labelled matrix (cell 8)\<close>

text \<open>
  A row of \<^verbatim>\<open>path_df\<close>. \<^verbatim>\<open>label_dict\<close> is a global dictionary from genre to
  class index; a missing key raises KeyError.
\<close>

record matched_path =
  Path :: string
  Genre :: string

definition dict_getitem :: "('k \<rightharpoonup> 'v) \<Rightarrow> 'k \<Rightarrow> exn + 'v" where
  "dict_getitem d k = (case d k of None \<Rightarrow> Inl KeyError | Some v \<Rightarrow> Inr v)"

text \<open>
  \<^verbatim>\<open>
  all_features = []
  for index, row in path_df.iterrows():
      features = get_features(row.Path)
      genre = label_dict[row.Genre]
      if features is not None:
          features.append(genre)
          all_features.append(features)
  return np.array(all_features)
  \<close>
\<close>

fun extract_loop ::
  "(string \<Rightarrow> midi_file codec_call) \<Rightarrow> (string \<rightharpoonup> int) \<Rightarrow> matched_path list \<Rightarrow>
   real list list \<Rightarrow> exn + real list list" where
  "extract_loop PrettyMIDI label_dict [] all_features = Inr all_features"
| "extract_loop PrettyMIDI label_dict (row # rows) all_features =
     (let features = get_features PrettyMIDI (Path row)
      in bindE (dict_getitem label_dict (Genre row)) (\<lambda>genre.
           case features of
             Some fs \<Rightarrow>
               extract_loop PrettyMIDI label_dict rows (all_features @ [fs @ [of_int genre]])
           | None \<Rightarrow> extract_loop PrettyMIDI label_dict rows all_features))"

definition extract_midi_features ::
  "(string \<Rightarrow> midi_file codec_call) \<Rightarrow> (string \<rightharpoonup> int) \<Rightarrow> matched_path list \<Rightarrow>
   exn + real list list" where
  "extract_midi_features PrettyMIDI label_dict path_df =
     extract_loop PrettyMIDI label_dict path_df []"

section \<open>Partitioning (cell 10)\<close>

text \<open>
  \<^verbatim>\<open>int(x)\<close> on a float truncates towards zero. A slice \<^verbatim>\<open>xs[a:b]\<close> clips its
  bounds to the list, a negative bound counting from the end; a missing bound is
  \<open>None\<close>.
\<close>

definition py_int :: "real \<Rightarrow> int" where
  "py_int x = (if x < 0 then \<lceil>x\<rceil> else \<lfloor>x\<rfloor>)"

definition slice_bound :: "nat \<Rightarrow> int \<Rightarrow> nat" where
  "slice_bound n i = (if i < 0 then nat (max (i + int n) 0) else min (nat i) n)"

definition py_slice :: "'a list \<Rightarrow> int option \<Rightarrow> int option \<Rightarrow> 'a list" where
  "py_slice xs start stop =
     (let n = length xs;
          lo = (case start of None \<Rightarrow> 0 | Some i \<Rightarrow> slice_bound n i);
          hi = (case stop of None \<Rightarrow> n | Some i \<Rightarrow> slice_bound n i)
      in take (hi - lo) (drop lo xs))"

text \<open>
  \<^verbatim>\<open>
  labeled_features = np.random.permutation(labeled_features)
  num = len(labeled_features)
  num_training = int(num * 0.6)
  num_validation = int(num * 0.8)
  training_data = labeled_features[:num_training]
  validation_data = labeled_features[num_training:num_validation]
  test_data = labeled_features[num_validation:]
  \<close>
  The random permutation drawn by numpy is the parameter \<open>permutation\<close>.
\<close>

definition partition_data ::
  "('a list \<Rightarrow> 'a list) \<Rightarrow> 'a list \<Rightarrow> 'a list \<times> 'a list \<times> 'a list" where
  "partition_data permutation labeled_features0 =
     (let labeled_features = permutation labeled_features0;
          num = length labeled_features;
          num_training = py_int (real num * 0.6);
          num_validation = py_int (real num * 0.8);
          training_data = py_slice labeled_features None (Some num_training);
          validation_data = py_slice labeled_features (Some num_training) (Some num_validation);
          test_data = py_slice labeled_features (Some num_validation) None
      in (training_data, validation_data, test_data))"

section \<open>One-hot encoding (cell 10)\<close>

text \<open>
  \<^verbatim>\<open>np.eye(num_classes)[labels].astype(int)\<close>: the rows of the identity matrix
  selected by \<open>labels\<close>. numpy accepts an index \<open>l\<close> with \<open>-n \<le> l < n\<close>, a
  negative one counting from the end, and raises IndexError otherwise.
\<close>

definition np_eye :: "nat \<Rightarrow> int list list" where
  "np_eye n = map (\<lambda>i. map (\<lambda>j. if i = j then 1 else 0) [0..<n]) [0..<n]"

definition np_row :: "'a list \<Rightarrow> int \<Rightarrow> exn + 'a" where
  "np_row rows l =
     (let n = int (length rows)
      in if 0 \<le> l \<and> l < n then Inr (rows ! nat l)
         else if - n \<le> l \<and> l < 0 then Inr (rows ! nat (l + n))
         else Inl IndexError)"

fun np_rows :: "'a list \<Rightarrow> int list \<Rightarrow> exn + 'a list" where
  "np_rows rows [] = Inr []"
| "np_rows rows (l # ls) =
     bindE (np_row rows l) (\<lambda>r. bindE (np_rows rows ls) (\<lambda>rs. Inr (r # rs)))"

definition one_hot :: "nat \<Rightarrow> int list \<Rightarrow> exn + int list list" where
  "one_hot num_classes labels = np_rows (np_eye num_classes) labels"

section \<open>Classifiers\<close>

text \<open>
  The scikit-learn learners are external. A trained classifier is its class and its
  \<^verbatim>\<open>predict\<close>: an \<^verbatim>\<open>MLPClassifier\<close> fitted on one-hot labels predicts one 0/1
  vector per row, an \<^verbatim>\<open>SVC\<close> one class index per row. An untrained one is its class
  and its \<^verbatim>\<open>fit\<close>, which returns the fitted object of the same class or raises.
  \<open>'x\<close> is the type of a feature row.
\<close>

datatype 'x clf =
    MLPClassifier "'x list \<Rightarrow> exn + int list list"
  | SVC "'x list \<Rightarrow> exn + int list"

datatype 'x estimator =
    New_MLPClassifier "'x list \<Rightarrow> int list list \<Rightarrow> exn + ('x list \<Rightarrow> exn + int list list)"
  | New_SVC "'x list \<Rightarrow> int list \<Rightarrow> exn + ('x list \<Rightarrow> exn + int list)"

datatype predictions = Vectors "int list list" | Indices "int list"

definition predict :: "'x clf \<Rightarrow> 'x list \<Rightarrow> exn + predictions" where
  "predict clf X =
     (case clf of
        MLPClassifier p \<Rightarrow> bindE (p X) (\<lambda>ys. Inr (Vectors ys))
      | SVC p \<Rightarrow> bindE (p X) (\<lambda>ys. Inr (Indices ys)))"

text \<open>
  \<^verbatim>\<open>
  if (type(clf) == SVC):
      clf = clf.fit(t_features, t_labels)
  else:
      clf = clf.fit(t_features, t_labels_hot)
  \<close>
\<close>

definition fit :: "'x estimator \<Rightarrow> 'x list \<Rightarrow> int list \<Rightarrow> int list list \<Rightarrow> exn + 'x clf" where
  "fit clf t_features t_labels t_labels_hot =
     (case clf of
        New_SVC f \<Rightarrow> bindE (f t_features t_labels) (\<lambda>p. Inr (SVC p))
      | New_MLPClassifier f \<Rightarrow> bindE (f t_features t_labels_hot) (\<lambda>p. Inr (MLPClassifier p)))"

section \<open>Model selection (cell 12)\<close>

text \<open>
  The body of the counting loop of \<^verbatim>\<open>train_model\<close>:
  \<^verbatim>\<open>
  if (type(clf) != SVC):
      if np.array_equal(v_labels_hot[i], predictions[i]):
          count += 1
  else:
      if v_labels[i] == predictions[i]:
          count += 1
  \<close>
  The predictions are \<open>Vectors\<close> exactly when the classifier is not an SVC.
  \<^verbatim>\<open>np.array_equal\<close> is true when both arrays have the same shape and the same
  elements: equality of the two lists.
\<close>

fun counted :: "predictions \<Rightarrow> int list \<Rightarrow> int list list \<Rightarrow> nat \<Rightarrow> exn + bool" where
  "counted (Vectors predictions) v_labels v_labels_hot i =
     bindE (py_getitem v_labels_hot i) (\<lambda>h.
     bindE (py_getitem predictions i) (\<lambda>p. Inr (h = p)))"
| "counted (Indices predictions) v_labels v_labels_hot i =
     bindE (py_getitem v_labels i) (\<lambda>l.
     bindE (py_getitem predictions i) (\<lambda>p. Inr (l = p)))"

fun count_loop ::
  "predictions \<Rightarrow> int list \<Rightarrow> int list list \<Rightarrow> nat list \<Rightarrow> nat \<Rightarrow> exn + nat" where
  "count_loop predictions v_labels v_labels_hot [] count_n = Inr count_n"
| "count_loop predictions v_labels v_labels_hot (i # rest) count_n =
     bindE (counted predictions v_labels v_labels_hot i) (\<lambda>c.
       count_loop predictions v_labels v_labels_hot rest (if c then count_n + 1 else count_n))"

definition true_div :: "nat \<Rightarrow> nat \<Rightarrow> exn + real" where
  "true_div a b = (if b = 0 then Inl ZeroDivisionError else Inr (real a / real b))"

text \<open>
  \<^verbatim>\<open>
  predictions = clf.predict(v_features)
  count = 0
  for i in range(len(v_labels)):
      ...
  accuracy = count / len(v_labels_hot)
  \<close>
\<close>

definition validation_accuracy ::
  "'x clf \<Rightarrow> 'x list \<Rightarrow> int list \<Rightarrow> int list list \<Rightarrow> exn + real" where
  "validation_accuracy clf v_features v_labels v_labels_hot =
     bindE (predict clf v_features) (\<lambda>predictions.
     bindE (count_loop predictions v_labels v_labels_hot [0..<length v_labels] 0) (\<lambda>count_n.
       true_div count_n (length v_labels_hot)))"

text \<open>
  One candidate of the loop of \<^verbatim>\<open>train_model\<close>, up to its accuracy: both one-hot
  expansions, the fit, the score.
\<close>

definition train_candidate ::
  "nat \<Rightarrow> 'x list \<Rightarrow> int list \<Rightarrow> 'x list \<Rightarrow> int list \<Rightarrow> 'x estimator \<Rightarrow> exn + ('x clf \<times> real)" where
  "train_candidate num_classes t_features t_labels v_features v_labels clf0 =
     bindE (one_hot num_classes t_labels) (\<lambda>t_labels_hot.
     bindE (one_hot num_classes v_labels) (\<lambda>v_labels_hot.
     bindE (fit clf0 t_features t_labels t_labels_hot) (\<lambda>clf.
     bindE (validation_accuracy clf v_features v_labels v_labels_hot) (\<lambda>accuracy.
       Inr (clf, accuracy)))))"

text \<open>
  \<^verbatim>\<open>
  best_clf = None
  best_accuracy = 0
  for clf in [clf_1, clf_2, clf_3, clf_4, clf_svm]:
      ...
      if accuracy > best_accuracy:
          best_accuracy = accuracy
          best_clf = clf
  print("Best Accuracy:", best_accuracy)
  return best_clf
  \<close>
  The result of the model is the returned \<open>best_clf\<close> with the printed
  \<open>best_accuracy\<close>.
\<close>

fun train_loop ::
  "nat \<Rightarrow> 'x list \<Rightarrow> int list \<Rightarrow> 'x list \<Rightarrow> int list \<Rightarrow> 'x estimator list \<Rightarrow>
   'x clf option \<times> real \<Rightarrow> exn + ('x clf option \<times> real)" where
  "train_loop num_classes t_features t_labels v_features v_labels [] best = Inr best"
| "train_loop num_classes t_features t_labels v_features v_labels (clf0 # clfs) best =
     bindE (train_candidate num_classes t_features t_labels v_features v_labels clf0)
       (\<lambda>(clf, accuracy).
          if accuracy > snd best
          then train_loop num_classes t_features t_labels v_features v_labels clfs
                 (Some clf, accuracy)
          else train_loop num_classes t_features t_labels v_features v_labels clfs best)"

definition select_best ::
  "nat \<Rightarrow> 'x list \<Rightarrow> int list \<Rightarrow> 'x list \<Rightarrow> int list \<Rightarrow> 'x estimator list \<Rightarrow>
   exn + ('x clf option \<times> real)" where
  "select_best num_classes t_features t_labels v_features v_labels clfs =
     train_loop num_classes t_features t_labels v_features v_labels clfs (None, 0)"

text \<open>
  \<^verbatim>\<open>train_model\<close> runs the loop over four MLP configurations and one SVC; their
  \<^verbatim>\<open>fit\<close> methods are the parameters \<open>clf_1\<close> to \<open>clf_svm\<close>.
\<close>

definition train_model ::
  "('x list \<Rightarrow> int list list \<Rightarrow> exn + ('x list \<Rightarrow> exn + int list list)) \<Rightarrow>
   ('x list \<Rightarrow> int list list \<Rightarrow> exn + ('x list \<Rightarrow> exn + int list list)) \<Rightarrow>
   ('x list \<Rightarrow> int list list \<Rightarrow> exn + ('x list \<Rightarrow> exn + int list list)) \<Rightarrow>
   ('x list \<Rightarrow> int list list \<Rightarrow> exn + ('x list \<Rightarrow> exn + int list list)) \<Rightarrow>
   ('x list \<Rightarrow> int list \<Rightarrow> exn + ('x list \<Rightarrow> exn + int list)) \<Rightarrow>
   nat \<Rightarrow> 'x list \<Rightarrow> int list \<Rightarrow> 'x list \<Rightarrow> int list \<Rightarrow> exn + ('x clf option \<times> real)" where
  "train_model clf_1 clf_2 clf_3 clf_4 clf_svm num_classes t_features t_labels v_features v_labels =
     select_best num_classes t_features t_labels v_features v_labels
       [New_MLPClassifier clf_1, New_MLPClassifier clf_2, New_MLPClassifier clf_3,
        New_MLPClassifier clf_4, New_SVC clf_svm]"

section \<open>Test accuracy (cell 14)\<close>

text \<open>
  \<^verbatim>\<open>
  count = 0
  predictions = clf.predict(t_features)
  t_labels_hot = one_hot(t_labels)
  for i in range(len(t_features)):
      if (type(clf) == SVC):
          if t_labels[i] == predictions[i]:
              count += 1
      else:
          if np.array_equal(t_labels_hot[i], predictions[i]):
              count += 1
  return count / len(t_features)
  \<close>
\<close>

fun test_counted :: "predictions \<Rightarrow> int list \<Rightarrow> int list list \<Rightarrow> nat \<Rightarrow> exn + bool" where
  "test_counted (Indices predictions) t_labels t_labels_hot i =
     bindE (py_getitem t_labels i) (\<lambda>l.
     bindE (py_getitem predictions i) (\<lambda>p. Inr (l = p)))"
| "test_counted (Vectors predictions) t_labels t_labels_hot i =
     bindE (py_getitem t_labels_hot i) (\<lambda>h.
     bindE (py_getitem predictions i) (\<lambda>p. Inr (h = p)))"

fun test_count_loop ::
  "predictions \<Rightarrow> int list \<Rightarrow> int list list \<Rightarrow> nat list \<Rightarrow> nat \<Rightarrow> exn + nat" where
  "test_count_loop predictions t_labels t_labels_hot [] count_n = Inr count_n"
| "test_count_loop predictions t_labels t_labels_hot (i # rest) count_n =
     bindE (test_counted predictions t_labels t_labels_hot i) (\<lambda>c.
       test_count_loop predictions t_labels t_labels_hot rest (if c then count_n + 1 else count_n))"

definition calculate_accuracy :: "nat \<Rightarrow> 'x clf \<Rightarrow> 'x list \<Rightarrow> int list \<Rightarrow> exn + real" where
  "calculate_accuracy num_classes clf t_features t_labels =
     bindE (predict clf t_features) (\<lambda>predictions.
     bindE (one_hot num_classes t_labels) (\<lambda>t_labels_hot.
     bindE (test_count_loop predictions t_labels t_labels_hot [0..<length t_features] 0) (\<lambda>count_n.
       true_div count_n (length t_features))))"

section \<open>Prediction (cell 16)\<close>

text \<open>
  \<^verbatim>\<open>list.index(x)\<close>: the position of the first element equal to \<open>x\<close>,
  ValueError when there is none.
\<close>

fun list_index :: "'a list \<Rightarrow> 'a \<Rightarrow> exn + nat" where
  "list_index [] x = Inl ValueError"
| "list_index (y # ys) x =
     (if y = x then Inr 0 else bindE (list_index ys x) (\<lambda>k. Inr (Suc k)))"

text \<open>
  \<^verbatim>\<open>
  features = get_features(midi_path)
  prediction_ind = list(clf.predict([features])[0]).index(1)
  prediction = label_list[prediction_ind]
  return prediction
  \<close>
  The classifier receives the one-row list \<^verbatim>\<open>[features]\<close>, whose row is \<open>None\<close>
  when \<^verbatim>\<open>get_features\<close> returned \<open>None\<close>. The first prediction of an SVC is a
  number, and \<^verbatim>\<open>list\<close> of a number raises TypeError.
\<close>

definition make_prediction ::
  "(string \<Rightarrow> midi_file codec_call) \<Rightarrow> string list \<Rightarrow> (real list option) clf \<Rightarrow> string \<Rightarrow>
   exn + string" where
  "make_prediction PrettyMIDI label_list clf midi_path =
     (let features = get_features PrettyMIDI midi_path
      in bindE (predict clf [features]) (\<lambda>predictions.
         bindE (case predictions of
                  Vectors ys \<Rightarrow> bindE (py_getitem ys 0) (\<lambda>y. list_index y 1)
                | Indices ys \<Rightarrow> bindE (py_getitem ys 0) (\<lambda>y. Inl TypeError)) (\<lambda>prediction_ind.
         py_getitem label_list prediction_ind)))"

section \<open>Example inputs\<close>

text \<open>
  A decodable file (tempo 120, time signatures 3/4 then 6/8, resolution 480) and a
  codec that raises on \<^verbatim>\<open>corrupt.mid\<close>, warns on \<^verbatim>\<open>warn.mid\<close> and decodes
  every other path to that file.
\<close>

definition example_file :: midi_file where
  "example_file =
     \<lparr>estimate_tempo = ([], Inr 120),
      time_signature_changes =
        [\<lparr>numerator = 3, denominator = 4\<rparr>, \<lparr>numerator = 6, denominator = 8\<rparr>],
      resolution = 480\<rparr>"

definition example_codec :: "string \<Rightarrow> midi_file codec_call" where
  "example_codec path =
     (if path = ''corrupt.mid'' then ([], Inl (LibraryError ''EOFError''))
      else if path = ''warn.mid'' then ([''tempo change on non-zero track''], Inr example_file)
      else ([], Inr example_file))"

definition example_label_dict :: "string \<rightharpoonup> int" where
  "example_label_dict = [''Jazz'' \<mapsto> 0, ''Pop_Rock'' \<mapsto> 1]"

text \<open>
  The row that \<^verbatim>\<open>extract_midi_features\<close> appends for an input row whose file
  decodes: its four features followed by its class index.
\<close>

definition labeled_row ::
  "(string \<Rightarrow> midi_file codec_call) \<Rightarrow> (string \<rightharpoonup> int) \<Rightarrow> matched_path \<Rightarrow> real list" where
  "labeled_row PrettyMIDI label_dict row =
     the (get_features PrettyMIDI (Path row)) @ [of_int (the (label_dict (Genre row)))]"

section \<open>Vocabulary of the results\<close>

text \<open>
  The one-hot expansion of a class index: 1 at the position of the index, 0 elsewhere.
\<close>

definition one_hot_vector :: "nat \<Rightarrow> int \<Rightarrow> int list" where
  "one_hot_vector num_classes l = map (\<lambda>j. if int j = l then 1 else 0) [0..<num_classes]"

text \<open>
  \<^verbatim>\<open>np.argmax\<close>: the position of the first maximal element.
\<close>

fun argmax_from :: "int list \<Rightarrow> nat \<Rightarrow> nat \<Rightarrow> int \<Rightarrow> nat" where
  "argmax_from [] i best_i best = best_i"
| "argmax_from (y # ys) i best_i best =
     (if y > best then argmax_from ys (Suc i) i y else argmax_from ys (Suc i) best_i best)"

definition np_argmax :: "int list \<Rightarrow> nat" where
  "np_argmax ys = (case ys of [] \<Rightarrow> 0 | y # rest \<Rightarrow> argmax_from rest 1 0 y)"

text \<open>
  Learners that ignore their input: a classifier whose \<^verbatim>\<open>predict\<close> returns the
  same predictions for every input, and a \<^verbatim>\<open>fit\<close> that returns such a classifier.
\<close>

definition stub_mlp :: "int list list \<Rightarrow> 'x clf" where
  "stub_mlp ys = MLPClassifier (\<lambda>X. Inr ys)"

definition stub_svc :: "int list \<Rightarrow> 'x clf" where
  "stub_svc ys = SVC (\<lambda>X. Inr ys)"

definition stub_fit_mlp ::
  "int list list \<Rightarrow> 'x list \<Rightarrow> int list list \<Rightarrow> exn + ('x list \<Rightarrow> exn + int list list)" where
  "stub_fit_mlp ys t_features t_labels_hot = Inr (\<lambda>X. Inr ys)"

definition stub_fit_svc ::
  "int list \<Rightarrow> 'x list \<Rightarrow> int list \<Rightarrow> exn + ('x list \<Rightarrow> exn + int list)" where
  "stub_fit_svc ys t_features t_labels = Inr (\<lambda>X. Inr ys)"

section \<open>Feature extraction: results\<close>

lemma bindE_simps [simp]: "bindE (Inl e) f = Inl e" "bindE (Inr x) f = f x"
  by (simp_all add: bindE_def)

lemma normalize_features_five:
  "normalize_features [a, b, c, d, e] =
     Inr [(a - 150) / 300, (c - 260) / 400, (d - 3) / 8, (e - 3) / 8]"
  by (simp add: normalize_features_def py_getitem_def)

lemma example_codec_song:
  "get_features_try example_codec ''song.mid'' = Inr [- (1 / 10), 11 / 20, 0, 1 / 8]"
  by (simp add: get_features_try_def example_codec_def example_file_def
      simplefilter_error_def normalize_features_five)

text \<open>
  C5. When the codec decodes the file and estimates its tempo without a warning or an
  exception, \<open>get_features\<close> returns exactly four components: (tempo - 150)/300,
  (resolution - 260)/400, (numerator - 3)/8 and (denominator - 3)/8, the time signature
  being the first change of the file, or 4/4 when the file has none. The number of
  time-signature changes is read and is no part of the vector.
\<close>

theorem get_features_vector:
  assumes "simplefilter_error (PrettyMIDI path) = Inr file"
    and "simplefilter_error (estimate_tempo file) = Inr tempo"
  shows "get_features PrettyMIDI path =
           Some [(tempo - 150) / 300,
                 (of_int (resolution file) - 260) / 400,
                 (of_int (case time_signature_changes file of [] \<Rightarrow> 4
                          | c # _ \<Rightarrow> numerator c) - 3) / 8,
                 (of_int (case time_signature_changes file of [] \<Rightarrow> 4
                          | c # _ \<Rightarrow> denominator c) - 3) / 8]"
  using assms
  by (cases "time_signature_changes file")
     (simp_all add: get_features_def get_features_try_def normalize_features_five)

theorem get_features_vector_witness:
  "get_features example_codec ''song.mid'' = Some [- (1 / 10), 11 / 20, 0, 1 / 8]"
  using get_features_vector [of example_codec "''song.mid''" example_file 120]
  by (simp add: example_codec_def example_file_def simplefilter_error_def)

lemma get_features_try_Inl:
  "(\<exists>e. get_features_try PrettyMIDI path = Inl e) \<longleftrightarrow>
     (\<exists>e. simplefilter_error (PrettyMIDI path) = Inl e) \<or>
     (\<exists>file e. simplefilter_error (PrettyMIDI path) = Inr file \<and>
        simplefilter_error (estimate_tempo file) = Inl e)"
  by (cases "simplefilter_error (PrettyMIDI path)";
      cases "simplefilter_error (estimate_tempo (projr (simplefilter_error (PrettyMIDI path))))")
     (auto simp add: get_features_try_def normalize_features_five Let_def)

lemma get_features_try_length:
  "get_features_try PrettyMIDI path = Inr v \<Longrightarrow> length v = 4"
  by (cases "simplefilter_error (PrettyMIDI path)";
      cases "simplefilter_error (estimate_tempo (projr (simplefilter_error (PrettyMIDI path))))")
     (auto simp add: get_features_try_def normalize_features_five Let_def)

text \<open>
  C9. \<open>get_features\<close> returns \<open>None\<close> or a vector of four components, and nothing
  else: no exception leaves it. A warning of the codec, an exception of the codec, and
  a warning or an exception of the tempo estimate each give \<open>None\<close>.
\<close>

theorem get_features_total:
  "(get_features PrettyMIDI path = None \<or>
      (\<exists>v. get_features PrettyMIDI path = Some v \<and> length v = 4)) \<and>
   (fst (PrettyMIDI path) \<noteq> [] \<longrightarrow> get_features PrettyMIDI path = None) \<and>
   (isl (snd (PrettyMIDI path)) \<longrightarrow> get_features PrettyMIDI path = None) \<and>
   (\<forall>file. snd (PrettyMIDI path) = Inr file \<and>
        (fst (estimate_tempo file) \<noteq> [] \<or> isl (snd (estimate_tempo file))) \<longrightarrow>
      get_features PrettyMIDI path = None)"
proof -
  have none: "get_features PrettyMIDI path = None \<longleftrightarrow>
                (\<exists>e. get_features_try PrettyMIDI path = Inl e)"
    by (cases "get_features_try PrettyMIDI path") (simp_all add: get_features_def)
  have shape: "get_features PrettyMIDI path = None \<or>
                 (\<exists>v. get_features PrettyMIDI path = Some v \<and> length v = 4)"
    by (cases "get_features_try PrettyMIDI path")
       (simp_all add: get_features_def get_features_try_length)
  have warn: "get_features PrettyMIDI path = None" if "fst (PrettyMIDI path) \<noteq> []"
    using that unfolding none get_features_try_Inl
    by (cases "fst (PrettyMIDI path)") (simp_all add: simplefilter_error_def)
  have raise: "get_features PrettyMIDI path = None" if "isl (snd (PrettyMIDI path))"
    using that unfolding none get_features_try_Inl
    by (cases "fst (PrettyMIDI path)"; cases "snd (PrettyMIDI path)")
       (simp_all add: simplefilter_error_def)
  have tempo: "get_features PrettyMIDI path = None"
    if "snd (PrettyMIDI path) = Inr f"
      and "fst (estimate_tempo f) \<noteq> [] \<or> isl (snd (estimate_tempo f))" for f
    using that unfolding none get_features_try_Inl
    by (cases "fst (PrettyMIDI path)"; cases "fst (estimate_tempo f)";
        cases "snd (estimate_tempo f)")
       (simp_all add: simplefilter_error_def)
  from shape warn raise tempo show ?thesis by blast
qed

theorem get_features_total_witness:
  "get_features example_codec ''warn.mid'' = None \<and>
   get_features example_codec ''corrupt.mid'' = None \<and>
   (\<exists>v. get_features example_codec ''song.mid'' = Some v \<and> length v = 4)"
  using get_features_total [of example_codec "''warn.mid''"]
    get_features_total [of example_codec "''corrupt.mid''"]
    get_features_total [of example_codec "''song.mid''"]
  by (simp add: example_codec_def get_features_def example_codec_song)

section \<open>Building the labelled matrix: results\<close>

lemma extract_loop_eq:
  "extract_loop PrettyMIDI label_dict rows acc =
     (if \<forall>row \<in> set rows. Genre row \<in> dom label_dict
      then Inr (acc @ map (labeled_row PrettyMIDI label_dict)
                        (filter (\<lambda>row. get_features PrettyMIDI (Path row) \<noteq> None) rows))
      else Inl KeyError)"
proof (induction rows arbitrary: acc)
  case Nil
  then show ?case by simp
next
  case (Cons row rows)
  show ?case
  proof (cases "label_dict (Genre row)")
    case None
    then show ?thesis by (auto simp add: dict_getitem_def dom_def)
  next
    case (Some genre)
    then show ?thesis
      by (cases "get_features PrettyMIDI (Path row)")
         (auto simp add: Cons.IH dict_getitem_def labeled_row_def dom_def)
  qed
qed

text \<open>
  C6. For every input whose genres are all keys of \<open>label_dict\<close>,
  \<open>extract_midi_features\<close> returns one labelled row for each input row whose file
  decodes, in the order of the input, and nothing at all for a row whose file fails to
  decode: no decode failure aborts such a run. Three rows with one corrupt file give
  two rows.
\<close>

theorem extract_midi_features_known_genres:
  assumes "\<forall>row \<in> set path_df. Genre row \<in> dom label_dict"
  shows "extract_midi_features PrettyMIDI label_dict path_df =
           Inr (map (labeled_row PrettyMIDI label_dict)
                  (filter (\<lambda>row. get_features PrettyMIDI (Path row) \<noteq> None) path_df))"
  using assms by (simp add: extract_midi_features_def extract_loop_eq)

theorem extract_midi_features_known_genres_witness:
  "extract_midi_features example_codec example_label_dict
     [\<lparr>Path = ''a.mid'', Genre = ''Jazz''\<rparr>,
      \<lparr>Path = ''corrupt.mid'', Genre = ''Jazz''\<rparr>,
      \<lparr>Path = ''b.mid'', Genre = ''Pop_Rock''\<rparr>] =
   Inr [[- (1 / 10), 11 / 20, 0, 1 / 8, 0], [- (1 / 10), 11 / 20, 0, 1 / 8, 1]]"
  using extract_midi_features_known_genres [of
     "[\<lparr>Path = ''a.mid'', Genre = ''Jazz''\<rparr>,
      \<lparr>Path = ''corrupt.mid'', Genre = ''Jazz''\<rparr>,
      \<lparr>Path = ''b.mid'', Genre = ''Pop_Rock''\<rparr>]" example_label_dict example_codec]
  by (simp add: example_label_dict_def labeled_row_def get_features_def get_features_try_def
      example_codec_def example_file_def simplefilter_error_def normalize_features_five)

text \<open>
  The genre of a row is looked up before the test \<^verbatim>\<open>features is not None\<close>: a row
  whose file fails to decode and whose genre is no key of \<open>label_dict\<close> is not
  dropped, the run ends with KeyError.
\<close>

theorem extract_midi_features_unknown_genre_counterexample:
  "extract_midi_features example_codec example_label_dict
     [\<lparr>Path = ''a.mid'', Genre = ''Jazz''\<rparr>,
      \<lparr>Path = ''corrupt.mid'', Genre = ''Blues''\<rparr>] = Inl KeyError"
  by (simp add: extract_midi_features_def extract_loop_eq example_label_dict_def)

section \<open>Partitioning: results\<close>

lemma py_int_nonneg: "0 \<le> x \<Longrightarrow> py_int x = \<lfloor>x\<rfloor>"
  by (simp add: py_int_def)

lemma partition_bounds:
  fixes n :: nat
  shows "0 \<le> \<lfloor>real n * 0.6\<rfloor>" "\<lfloor>real n * 0.6\<rfloor> \<le> \<lfloor>real n * 0.8\<rfloor>" "\<lfloor>real n * 0.8\<rfloor> \<le> int n"
proof -
  show "0 \<le> \<lfloor>real n * 0.6\<rfloor>" by simp
  show "\<lfloor>real n * 0.6\<rfloor> \<le> \<lfloor>real n * 0.8\<rfloor>" by (rule floor_mono) simp
  have "real n * 0.8 \<le> real n" by simp
  then have "\<lfloor>real n * 0.8\<rfloor> \<le> \<lfloor>real n\<rfloor>" by (rule floor_mono)
  then show "\<lfloor>real n * 0.8\<rfloor> \<le> int n" by simp
qed

lemma slice_bound_inside: "0 \<le> i \<Longrightarrow> i \<le> int n \<Longrightarrow> slice_bound n i = nat i"
  unfolding slice_bound_def by (simp add: min_def) linarith

lemma py_slice_prefix:
  "0 \<le> a \<Longrightarrow> a \<le> int (length xs) \<Longrightarrow> py_slice xs None (Some a) = take (nat a) xs"
  by (simp add: py_slice_def slice_bound_inside Let_def)

lemma py_slice_middle:
  "0 \<le> a \<Longrightarrow> a \<le> b \<Longrightarrow> b \<le> int (length xs) \<Longrightarrow>
     py_slice xs (Some a) (Some b) = take (nat b - nat a) (drop (nat a) xs)"
  by (simp add: py_slice_def slice_bound_inside Let_def)

lemma py_slice_suffix:
  "0 \<le> b \<Longrightarrow> b \<le> int (length xs) \<Longrightarrow> py_slice xs (Some b) None = drop (nat b) xs"
  by (simp add: py_slice_def slice_bound_inside Let_def)

lemma three_slices:
  assumes "a \<le> b" "b \<le> length xs"
  shows "take a xs @ take (b - a) (drop a xs) @ drop b xs = xs"
proof -
  have "take (b - a) (drop a xs) @ drop b xs = drop a xs"
    using assms by (metis append_take_drop_id drop_drop le_add_diff_inverse2)
  then show ?thesis by simp
qed

text \<open>
  C4. The three slices of a matrix of N rows are consecutive pieces of the shuffled
  matrix, cut at the offsets floor(0.6 N) and floor(0.8 N): their sizes add up to N,
  the training slice has floor(0.6 N) rows and the validation slice
  floor(0.8 N) - floor(0.6 N).
\<close>

theorem partition_data_sizes:
  assumes "mset (permutation labeled_features) = mset labeled_features"
    and "partition_data permutation labeled_features = (training_data, validation_data, test_data)"
  shows "length training_data + length validation_data + length test_data = length labeled_features
       \<and> int (length training_data) = \<lfloor>0.6 * real (length labeled_features)\<rfloor>
       \<and> int (length validation_data) =
           \<lfloor>0.8 * real (length labeled_features)\<rfloor> - \<lfloor>0.6 * real (length labeled_features)\<rfloor>
       \<and> training_data @ validation_data @ test_data = permutation labeled_features"
proof -
  define xs where "xs = permutation labeled_features"
  define a where "a = \<lfloor>real (length xs) * 0.6\<rfloor>"
  define b where "b = \<lfloor>real (length xs) * 0.8\<rfloor>"
  have len: "length xs = length labeled_features"
    using assms(1) unfolding xs_def by (metis size_mset)
  have ab: "0 \<le> a" "a \<le> b" "b \<le> int (length xs)"
    unfolding a_def b_def by (rule partition_bounds)+
  have pa: "py_int (real (length xs) * 0.6) = a"
    unfolding a_def by (rule py_int_nonneg) simp
  have pb: "py_int (real (length xs) * 0.8) = b"
    unfolding b_def by (rule py_int_nonneg) simp
  from assms(2)
  have "(py_slice xs None (Some a), py_slice xs (Some a) (Some b), py_slice xs (Some b) None) =
          (training_data, validation_data, test_data)"
    unfolding partition_data_def Let_def xs_def [symmetric] pa pb .
  then have tr: "training_data = take (nat a) xs"
    and va: "validation_data = take (nat b - nat a) (drop (nat a) xs)"
    and te: "test_data = drop (nat b) xs"
    using ab py_slice_prefix [of a xs] py_slice_middle [of a b xs] py_slice_suffix [of b xs]
    by simp_all
  have nab: "nat a \<le> nat b" "nat b \<le> length xs" using ab by linarith+
  have cat: "training_data @ validation_data @ test_data = xs"
    unfolding tr va te using nab by (rule three_slices)
  have ltr: "int (length training_data) = a" unfolding tr using ab by simp
  have lva: "int (length validation_data) = b - a" unfolding va using ab nab by simp
  have "length (training_data @ validation_data @ test_data) = length xs"
    by (simp only: cat)
  then have total: "length training_data + length validation_data + length test_data = length xs"
    by simp
  show ?thesis
    using total ltr lva cat
    by (simp add: len [symmetric] a_def b_def xs_def mult.commute)
qed

theorem partition_data_sizes_witness:
  "partition_data rev [1, 2, 3, 4, 5, 6, 7 :: nat] = ([7, 6, 5, 4], [3], [2, 1]) \<and>
   int (length [7, 6, 5, 4 :: nat]) = \<lfloor>0.6 * real (length [1, 2, 3, 4, 5, 6, 7 :: nat])\<rfloor>"
  using partition_data_sizes [of rev "[1, 2, 3, 4, 5, 6, 7 :: nat]" "[7, 6, 5, 4]" "[3]" "[2, 1]"]
  by (simp add: partition_data_def py_int_def py_slice_def slice_bound_def Let_def)

section \<open>Scoring: results\<close>

lemma np_row_eye:
  assumes "0 \<le> l" "l < int n"
  shows "np_row (np_eye n) l = Inr (one_hot_vector n l)"
proof -
  have "nat l < n" using assms by linarith
  then have "np_eye n ! nat l = map (\<lambda>j. if nat l = j then 1 else 0) [0..<n]"
    by (simp add: np_eye_def)
  also have "\<dots> = one_hot_vector n l"
    using assms by (auto simp add: one_hot_vector_def)
  finally show ?thesis using assms by (simp add: np_row_def np_eye_def)
qed

lemma one_hot_valid:
  assumes "\<forall>l \<in> set labels. 0 \<le> l \<and> l < int n"
  shows "one_hot n labels = Inr (map (one_hot_vector n) labels)"
  using assms unfolding one_hot_def
  by (induction labels) (simp_all add: np_row_eye)

lemma np_rows_length: "np_rows rows ls = Inr rs \<Longrightarrow> length rs = length ls"
proof (induction ls arbitrary: rs)
  case Nil
  then show ?case by simp
next
  case (Cons l ls)
  then show ?case
    by (cases "np_row rows l"; cases "np_rows rows ls") auto
qed

lemma one_hot_length: "one_hot n labels = Inr hot \<Longrightarrow> length hot = length labels"
  unfolding one_hot_def by (rule np_rows_length)

lemma count_loop_vectors:
  assumes "\<forall>i \<in> set is. i < length hot \<and> i < length predictions"
  shows "count_loop (Vectors predictions) v_labels hot is c =
           Inr (c + length (filter (\<lambda>i. hot ! i = predictions ! i) is))"
  using assms
  by (induction "is" arbitrary: c) (simp_all add: py_getitem_def)

text \<open>
  C1. In the scoring loop of \<open>train_model\<close>, with the predictions of a dense
  candidate (an \<^verbatim>\<open>MLPClassifier\<close>) and valid labels, example \<open>i\<close> is counted
  exactly when the predicted vector equals, element for element, the one-hot expansion
  of its label; the count is the number of such examples and the accuracy is that count
  over the number of examples. A prediction with the same argmax and another element
  is not counted.
\<close>

theorem dense_counted_iff_exact:
  assumes "\<forall>l \<in> set v_labels. 0 \<le> l \<and> l < int num_classes"
    and "length v_labels \<le> length predictions"
    and "one_hot num_classes v_labels = Inr v_labels_hot"
  shows "(\<forall>i < length v_labels.
            counted (Vectors predictions) v_labels v_labels_hot i =
              Inr (predictions ! i = one_hot_vector num_classes (v_labels ! i)))
       \<and> count_loop (Vectors predictions) v_labels v_labels_hot [0..<length v_labels] 0 =
           Inr (length (filter (\<lambda>i. predictions ! i = one_hot_vector num_classes (v_labels ! i))
                          [0..<length v_labels]))
       \<and> (\<forall>p v_features. p v_features = Inr predictions \<longrightarrow>
            validation_accuracy (MLPClassifier p) v_features v_labels v_labels_hot =
              true_div
                (length (filter (\<lambda>i. predictions ! i = one_hot_vector num_classes (v_labels ! i))
                           [0..<length v_labels]))
                (length v_labels))"
proof -
  have hot: "v_labels_hot = map (one_hot_vector num_classes) v_labels"
    using assms(1,3) by (simp add: one_hot_valid)
  have one: "counted (Vectors predictions) v_labels v_labels_hot i =
               Inr (predictions ! i = one_hot_vector num_classes (v_labels ! i))"
    if "i < length v_labels" for i
    using that assms(2) by (auto simp add: hot py_getitem_def)
  have "count_loop (Vectors predictions) v_labels v_labels_hot [0..<length v_labels] 0 =
          Inr (0 + length (filter (\<lambda>i. v_labels_hot ! i = predictions ! i) [0..<length v_labels]))"
    using assms(2) by (intro count_loop_vectors) (simp add: hot)
  also have "filter (\<lambda>i. v_labels_hot ! i = predictions ! i) [0..<length v_labels] =
             filter (\<lambda>i. predictions ! i = one_hot_vector num_classes (v_labels ! i)) [0..<length v_labels]"
    by (rule filter_cong) (auto simp add: hot)
  finally have loop:
    "count_loop (Vectors predictions) v_labels v_labels_hot [0..<length v_labels] 0 =
       Inr (length (filter (\<lambda>i. predictions ! i = one_hot_vector num_classes (v_labels ! i))
                      [0..<length v_labels]))"
    by simp
  have acc: "validation_accuracy (MLPClassifier p) v_features v_labels v_labels_hot =
               true_div
                 (length (filter (\<lambda>i. predictions ! i = one_hot_vector num_classes (v_labels ! i))
                            [0..<length v_labels]))
                 (length v_labels)"
    if "p v_features = Inr predictions" for p and v_features :: "'a list"
    using that by (simp add: validation_accuracy_def predict_def loop one_hot_length [OF assms(3)])
  from one loop acc show ?thesis by blast
qed

theorem dense_counted_iff_exact_witness:
  "np_argmax [0, 0, 1, 1] = np_argmax (one_hot_vector 4 2) \<and>
   counted (Vectors [[0, 0, 1, 1], [0, 1, 0, 0]]) [2, 1] [[0, 0, 1, 0], [0, 1, 0, 0]] 0 = Inr False \<and>
   counted (Vectors [[0, 0, 1, 1], [0, 1, 0, 0]]) [2, 1] [[0, 0, 1, 0], [0, 1, 0, 0]] 1 = Inr True \<and>
   count_loop (Vectors [[0, 0, 1, 1], [0, 1, 0, 0]]) [2, 1] [[0, 0, 1, 0], [0, 1, 0, 0]] [0..<length [2, 1 :: int]] 0 = Inr 1"
  using dense_counted_iff_exact [of "[2, 1]" 4 "[[0, 0, 1, 1], [0, 1, 0, 0]]" "[[0, 0, 1, 0], [0, 1, 0, 0]]"]
  by (simp add: one_hot_def np_eye_def np_row_def np_argmax_def one_hot_vector_def upt_rec
      nth_Cons' py_getitem_def)

lemma test_counted_eq:
  "test_counted predictions t_labels t_labels_hot i = counted predictions t_labels t_labels_hot i"
  by (cases predictions) simp_all

lemma test_count_loop_eq:
  "test_count_loop predictions t_labels t_labels_hot is c =
     count_loop predictions t_labels t_labels_hot is c"
  by (induction "is" arbitrary: c) (simp_all add: test_counted_eq)

text \<open>
  C7. For a trained classifier, features and labels of the same length, and labels
  whose one-hot expansion exists, \<open>calculate_accuracy\<close> returns what the scoring
  of \<open>train_model\<close> returns on the same data: the same accuracy, or the same
  exception.
\<close>

theorem calculate_accuracy_same_rule:
  assumes "length t_features = length t_labels"
    and "one_hot num_classes t_labels = Inr t_labels_hot"
  shows "calculate_accuracy num_classes clf t_features t_labels =
           validation_accuracy clf t_features t_labels t_labels_hot"
proof -
  have "length t_labels_hot = length t_labels"
    using assms(2) by (rule one_hot_length)
  then show ?thesis
    using assms
    by (cases "predict clf t_features")
       (simp_all add: calculate_accuracy_def validation_accuracy_def test_count_loop_eq)
qed

theorem calculate_accuracy_same_rule_witness:
  "calculate_accuracy 2 (stub_mlp [[0, 1], [1, 1]]) [''a'', ''b''] [1, 0] = Inr (1 / 2) \<and>
   validation_accuracy (stub_mlp [[0, 1], [1, 1]]) [''a'', ''b''] [1, 0] [[0, 1], [1, 0]] = Inr (1 / 2) \<and>
   calculate_accuracy 2 (stub_svc [1, 0]) [''a'', ''b''] [1, 0] = Inr 1"
  using calculate_accuracy_same_rule [of "[''a'', ''b'']" "[1, 0]" 2 "[[0, 1], [1, 0]]" "stub_mlp [[0, 1], [1, 1]]"]
    calculate_accuracy_same_rule [of "[''a'', ''b'']" "[1, 0]" 2 "[[0, 1], [1, 0]]" "stub_svc [1, 0]"]
  by (simp add: one_hot_def np_eye_def np_row_def upt_rec nth_Cons' py_getitem_def
      validation_accuracy_def predict_def stub_mlp_def stub_svc_def true_div_def)

section \<open>Model selection: results\<close>

lemma train_candidate_wrong_mlp:
  "train_candidate 2 [''t''] [0] [''v''] [1] (New_MLPClassifier (stub_fit_mlp [[1, 0]])) =
     Inr (MLPClassifier (\<lambda>X. Inr [[1, 0]]), 0)"
  by (simp add: train_candidate_def one_hot_def np_eye_def np_row_def upt_rec nth_Cons'
      py_getitem_def validation_accuracy_def predict_def stub_fit_mlp_def fit_def true_div_def)

lemma train_candidate_wrong_svc:
  "train_candidate 2 [''t''] [0] [''v''] [1] (New_SVC (stub_fit_svc [0])) =
     Inr (SVC (\<lambda>X. Inr [0]), 0)"
  by (simp add: train_candidate_def one_hot_def np_eye_def np_row_def upt_rec nth_Cons'
      py_getitem_def validation_accuracy_def predict_def stub_fit_svc_def fit_def true_div_def)

lemma train_loop_all_zero:
  assumes "\<forall>c \<in> set clfs. \<exists>clf. train_candidate n tf tls vf vls c = Inr (clf, 0)"
  shows "train_loop n tf tls vf vls clfs (None, 0) = Inr (None, 0)"
  using assms
proof (induction clfs)
  case Nil
  then show ?case by simp
next
  case (Cons c clfs)
  then obtain clf where "train_candidate n tf tls vf vls c = Inr (clf, 0)" by auto
  with Cons show ?case by simp
qed

text \<open>
  C10. When every candidate trains and scores a validation accuracy of exactly 0, the
  selection returns no classifier (\<open>None\<close>) and the accuracy 0: the best accuracy
  starts at 0 and a candidate replaces the best only with a strictly greater one.
\<close>

theorem select_best_all_zero_none:
  assumes "\<forall>c \<in> set clfs.
             \<exists>clf. train_candidate num_classes t_features t_labels v_features v_labels c = Inr (clf, 0)"
  shows "select_best num_classes t_features t_labels v_features v_labels clfs = Inr (None, 0)"
  using assms unfolding select_best_def by (rule train_loop_all_zero)

theorem select_best_all_zero_none_witness:
  "select_best 2 [''t''] [0] [''v''] [1]
     [New_MLPClassifier (stub_fit_mlp [[1, 0]]), New_SVC (stub_fit_svc [0])] = Inr (None, 0)"
  using select_best_all_zero_none
    [of "[New_MLPClassifier (stub_fit_mlp [[1, 0]]), New_SVC (stub_fit_svc [0])]"
      2 "[''t'']" "[0]" "[''v'']" "[1]"]
  by (simp add: train_candidate_wrong_mlp train_candidate_wrong_svc)

lemma train_loop_no_update:
  assumes "list_all2 (\<lambda>c r. train_candidate n tf tls vf vls c = Inr r) clfs results"
    and "\<forall>r \<in> set results. snd r \<le> snd best"
  shows "train_loop n tf tls vf vls clfs best = Inr best"
  using assms
proof (induction clfs arbitrary: results)
  case Nil
  then show ?case by simp
next
  case (Cons c clfs)
  then obtain r rs where rs: "results = r # rs" "train_candidate n tf tls vf vls c = Inr r"
    "list_all2 (\<lambda>c r. train_candidate n tf tls vf vls c = Inr r) clfs rs"
    by (auto simp add: list_all2_Cons1)
  with Cons.prems(2) have "\<not> snd r > snd best" "\<forall>r \<in> set rs. snd r \<le> snd best"
    by auto
  with rs Cons.IH [of rs] show ?case
    by (cases r) simp
qed

lemma train_loop_first_maximum:
  assumes "list_all2 (\<lambda>c r. train_candidate n tf tls vf vls c = Inr r) clfs results"
    and "k < length results"
    and "\<forall>j < length results. snd (results ! j) \<le> snd (results ! k)"
    and "\<forall>j < k. snd (results ! j) < snd (results ! k)"
    and "snd best < snd (results ! k)"
  shows "train_loop n tf tls vf vls clfs best =
           Inr (Some (fst (results ! k)), snd (results ! k))"
  using assms
proof (induction clfs arbitrary: results k best)
  case Nil
  then show ?case by simp
next
  case (Cons c clfs)
  then obtain r rs where rs: "results = r # rs" "train_candidate n tf tls vf vls c = Inr r"
    "list_all2 (\<lambda>c r. train_candidate n tf tls vf vls c = Inr r) clfs rs"
    by (auto simp add: list_all2_Cons1)
  show ?case
  proof (cases k)
    case 0
    have le: "\<forall>x \<in> set rs. snd x \<le> snd (Some (fst r), snd r)"
    proof
      fix x assume "x \<in> set rs"
      then obtain j where "j < length rs" "rs ! j = x" by (auto simp add: in_set_conv_nth)
      with Cons.prems(3) [rule_format, of "Suc j"] rs(1) 0 show "snd x \<le> snd (Some (fst r), snd r)"
        by simp
    qed
    have "train_loop n tf tls vf vls clfs (Some (fst r), snd r) = Inr (Some (fst r), snd r)"
      using rs(3) le by (rule train_loop_no_update)
    with Cons.prems(5) rs 0 show ?thesis
      by (cases r) simp
  next
    case (Suc k')
    have k': "k' < length rs" using Cons.prems(2) rs(1) Suc by simp
    have mx: "\<forall>j < length rs. snd (rs ! j) \<le> snd (rs ! k')"
      using Cons.prems(3) rs(1) Suc by auto
    have fst: "\<forall>j < k'. snd (rs ! j) < snd (rs ! k')"
      using Cons.prems(4) rs(1) Suc by auto
    have r_lt: "snd r < snd (rs ! k')"
      using Cons.prems(4) [rule_format, of 0] rs(1) Suc by simp
    have b_lt: "snd best < snd (rs ! k')"
      using Cons.prems(5) rs(1) Suc by simp
    have upd: "train_loop n tf tls vf vls clfs (Some (fst r), snd r) =
                 Inr (Some (fst (rs ! k')), snd (rs ! k'))"
      using rs(3) k' mx fst r_lt by (intro Cons.IH) simp_all
    have keep: "train_loop n tf tls vf vls clfs best =
                 Inr (Some (fst (rs ! k')), snd (rs ! k'))"
      using rs(3) k' mx fst b_lt by (intro Cons.IH) simp_all
    from upd keep rs Suc show ?thesis
      by (cases r) simp
  qed
qed

text \<open>
  When every candidate trains and scores, and the greatest accuracy is positive, the
  selection returns the first candidate that reaches it, with that accuracy.
\<close>

lemma select_best_first_maximum:
  assumes "list_all2 (\<lambda>c r. train_candidate n tf tls vf vls c = Inr r) clfs results"
    and "k < length results"
    and "\<forall>j < length results. snd (results ! j) \<le> snd (results ! k)"
    and "\<forall>j < k. snd (results ! j) < snd (results ! k)"
    and "0 < snd (results ! k)"
  shows "select_best n tf tls vf vls clfs = Inr (Some (fst (results ! k)), snd (results ! k))"
  unfolding select_best_def using assms by (intro train_loop_first_maximum) simp_all

text \<open>
  C2. \<open>train_model\<close> is to return the classifier with the highest validation
  accuracy, the first one on a tie. On a validation set of one example that all five
  candidates predict wrongly, every accuracy is 0, the first candidate is the first to
  reach the maximum, and \<open>train_model\<close> returns \<open>None\<close>.
\<close>

theorem train_model_all_wrong_returns_none:
  "train_model (stub_fit_mlp [[1, 0]]) (stub_fit_mlp [[1, 0]]) (stub_fit_mlp [[1, 0]])
     (stub_fit_mlp [[1, 0]]) (stub_fit_svc [0]) 2 [''t''] [0] [''v''] [1] = Inr (None, 0)"
  by (simp add: train_model_def select_best_def train_candidate_wrong_mlp
      train_candidate_wrong_svc)

section \<open>Prediction: results\<close>

lemma list_index_absent: "x \<notin> set ys \<Longrightarrow> list_index ys x = Inl ValueError"
  by (induction ys) auto

lemma list_index_first:
  "k < length ys \<Longrightarrow> ys ! k = x \<Longrightarrow> \<forall>j < k. ys ! j \<noteq> x \<Longrightarrow> list_index ys x = Inr k"
proof (induction ys arbitrary: k)
  case Nil
  then show ?case by simp
next
  case (Cons y ys)
  show ?case
  proof (cases k)
    case 0
    with Cons.prems show ?thesis by simp
  next
    case (Suc k')
    from Cons.prems(3) [rule_format, of 0] Suc have "y \<noteq> x" by simp
    moreover have "list_index ys x = Inr k'"
      using Cons.prems Suc by (intro Cons.IH) auto
    ultimately show ?thesis using Suc by simp
  qed
qed

text \<open>
  C3. For a dense classifier whose first predicted vector is \<open>y\<close>,
  \<open>make_prediction\<close> raises ValueError when \<open>y\<close> has no 1-valued position and
  otherwise decodes the first 1-valued position \<open>k\<close>, whatever follows it: it returns
  the genre at \<open>k\<close> of the vocabulary, or raises IndexError when the vocabulary is
  shorter. A stub returning [0,0,1,0] over [A,B,C,D] gives C.
\<close>

theorem make_prediction_first_one:
  assumes "p [get_features PrettyMIDI midi_path] = Inr (y # ys)"
  shows "(1 \<notin> set y \<longrightarrow>
            make_prediction PrettyMIDI label_list (MLPClassifier p) midi_path = Inl ValueError)
       \<and> (k < length y \<and> y ! k = 1 \<and> (\<forall>j < k. y ! j \<noteq> 1) \<longrightarrow>
            make_prediction PrettyMIDI label_list (MLPClassifier p) midi_path =
              (if k < length label_list then Inr (label_list ! k) else Inl IndexError))"
  using assms
  by (auto simp add: make_prediction_def predict_def py_getitem_def list_index_absent
      list_index_first)

theorem make_prediction_first_one_witness:
  "make_prediction example_codec [''A'', ''B'', ''C'', ''D''] (stub_mlp [[0, 0, 1, 0]]) ''song.mid'' =
     Inr ''C'' \<and>
   make_prediction example_codec [''A'', ''B'', ''C'', ''D''] (stub_mlp [[0, 0, 0, 0]]) ''song.mid'' =
     Inl ValueError"
  using make_prediction_first_one [of "\<lambda>X. Inr [[0, 0, 1, 0]]" example_codec "''song.mid''"
      "[0, 0, 1, 0]" "[]" "[''A'', ''B'', ''C'', ''D'']" "Suc (Suc 0)"]
    make_prediction_first_one [of "\<lambda>X. Inr [[0, 0, 0, 0]]" example_codec "''song.mid''"
      "[0, 0, 0, 0]" "[]" "[''A'', ''B'', ''C'', ''D'']" 0]
  by (simp add: stub_mlp_def All_less_Suc)

theorem make_prediction_two_ones_counterexample:
  "make_prediction example_codec [''A'', ''B'', ''C'', ''D''] (stub_mlp [[0, 1, 1, 0]]) ''song.mid'' =
     Inr ''B''"
  by (simp add: make_prediction_def predict_def stub_mlp_def py_getitem_def)

text \<open>
  C8. A prediction on a file that fails to decode is to fail. \<open>make_prediction\<close>
  does not test for \<open>None\<close>, as \<open>extract_midi_features\<close> does: it hands the row
  \<open>None\<close> to the classifier, and with a classifier that answers [0,0,1,0] it returns
  the genre C for the corrupt file.
\<close>

theorem make_prediction_undecodable_returns_genre:
  "get_features example_codec ''corrupt.mid'' = None \<and>
   make_prediction example_codec [''A'', ''B'', ''C'', ''D''] (stub_mlp [[0, 0, 1, 0]]) ''corrupt.mid'' =
     Inr ''C''"
  by (simp add: make_prediction_def predict_def stub_mlp_def py_getitem_def get_features_def
      get_features_try_def example_codec_def simplefilter_error_def)

end
